theory Spec2Isabelle
  imports Main "HOL-Library.AList" "HOL-Library.Word"
begin

section \<open>Python values and exceptions\<close>

text \<open>
  The four monitoring scripts are MicroPython programs. Each defines a probe function
  (\<^verbatim>\<open>get_gpio_states\<close>, \<^verbatim>\<open>scan_i2c_devices\<close>, \<^verbatim>\<open>scan_wifi_networks\<close>,
  \<^verbatim>\<open>get_system_metrics\<close>) and a sender that prints the probe's result behind a
  sentinel tag.

  An exception is a value; \<open>str_exn\<close> is Python's \<^verbatim>\<open>str(e)\<close>. The model covers the
  instances of \<^verbatim>\<open>Exception\<close> (\<^verbatim>\<open>OSError\<close>, \<^verbatim>\<open>ValueError\<close>, \<^verbatim>\<open>AttributeError\<close>, ...), which
  is what a driver call raises; both \<^verbatim>\<open>except:\<close> and \<^verbatim>\<open>except Exception\<close> catch them.
  A computation that may raise has type \<open>exn + 'a\<close>, with \<open>Inl\<close> the raised exception.
\<close>

datatype exn = Exception string

fun str_exn :: "exn \<Rightarrow> string" where
  "str_exn (Exception m) = m"

text \<open>
  The values the probes build: integers, strings, lists and dictionaries. A dictionary is
  an association list in insertion order; \<^verbatim>\<open>d[k] = v\<close> is \<open>AList.update k v d\<close> (replace in
  place, or append a new key) and a lookup is \<open>map_of d k\<close>.
\<close>

datatype pyval =
    PInt int
  | PStr string
  | PList "pyval list"
  | PDict "(string \<times> pyval) list"

text \<open>The record every probe returns from its outer handler: \<^verbatim>\<open>{'error': str(e)}\<close>.\<close>

definition error_record :: "exn \<Rightarrow> pyval" where
  "error_record e = PDict [(''error'', PStr (str_exn e))]"

text \<open>\<^verbatim>\<open>try: body  except Exception as e: handler(e)\<close>\<close>

definition try_except :: "exn + 'a \<Rightarrow> (exn \<Rightarrow> exn + 'a) \<Rightarrow> exn + 'a" where
  "try_except body handler = (case body of Inl e \<Rightarrow> handler e | Inr v \<Rightarrow> Inr v)"

subsection \<open>Formatting integers\<close>

definition digit_char :: "nat \<Rightarrow> char" where
  "digit_char d = ''0123456789abcdef'' ! d"

text \<open>\<^verbatim>\<open>str(n)\<close> for a natural number: its decimal digits, most significant first.\<close>

fun str_nat :: "nat \<Rightarrow> string" where
  "str_nat n = (if n < 10 then [digit_char n] else str_nat (n div 10) @ [digit_char (n mod 10)])"

declare str_nat.simps [simp del]

definition str_int :: "int \<Rightarrow> string" where
  "str_int i = (if i < 0 then CHR ''-'' # str_nat (nat (- i)) else str_nat (nat i))"

text \<open>\<^verbatim>\<open>'%x' % n\<close>: lowercase hexadecimal digits.\<close>

fun hex_nat :: "nat \<Rightarrow> string" where
  "hex_nat n = (if n < 16 then [digit_char n] else hex_nat (n div 16) @ [digit_char (n mod 16)])"

declare hex_nat.simps [simp del]

text \<open>\<^verbatim>\<open>'%02x' % n\<close>: the hexadecimal digits, padded with zeros on the left to width 2.\<close>

definition fmt_02x :: "nat \<Rightarrow> string" where
  "fmt_02x n = (let s = hex_nat n in replicate (2 - length s) CHR ''0'' @ s)"

text \<open>\<^verbatim>\<open>sep.join(parts)\<close>\<close>

fun join :: "string \<Rightarrow> string list \<Rightarrow> string" where
  "join sep [] = []"
| "join sep [x] = x"
| "join sep (x # y # ys) = x @ sep @ join sep (y # ys)"

section \<open>GPIO probe (gpio\_monitor.py)\<close>

text \<open>
  The hardware is a parameter of the model. \<open>Pin_new n\<close> is the outcome of
  \<^verbatim>\<open>Pin(n, Pin.IN)\<close> (the pin object, identified by its number, or the exception raised) and
  \<open>Pin_value p\<close> the outcome of \<^verbatim>\<open>pin.value()\<close>. \<open>gpio_setup\<close> is an exception raised in
  the outer \<^verbatim>\<open>try\<close> block before the loop starts (lines 11 to 13, building the candidate
  list and the dictionary), if any: the only code of the function outside the per-pin
  \<^verbatim>\<open>try\<close>.
\<close>

record gpio_hw =
  gpio_setup :: "exn option"
  Pin_new :: "int \<Rightarrow> exn + int"
  Pin_value :: "int \<Rightarrow> exn + int"

definition pin_numbers :: "int list" where
  "pin_numbers = [2, 4, 5, 16, 17, 18, 19, 21, 22, 23, 25, 26, 27, 32, 33]"

text \<open>The key \<^verbatim>\<open>f'pin_{pin_num}'\<close>.\<close>

definition pin_key :: "int \<Rightarrow> string" where
  "pin_key n = ''pin_'' @ str_int n"

text \<open>The body of the per-pin \<^verbatim>\<open>try\<close>: \<^verbatim>\<open>Pin(pin_num, Pin.IN)\<close>, then \<^verbatim>\<open>pin.value()\<close>.\<close>

definition read_pin :: "gpio_hw \<Rightarrow> int \<Rightarrow> exn + int" where
  "read_pin hw n = (case Pin_new hw n of Inl e \<Rightarrow> Inl e | Inr pin \<Rightarrow> Pin_value hw pin)"

text \<open>
  The loop over the candidates, with \<^verbatim>\<open>states\<close> as accumulator. The bare \<^verbatim>\<open>except: pass\<close>
  leaves \<^verbatim>\<open>states\<close> as it is and goes on with the next pin.
\<close>

fun gpio_loop :: "gpio_hw \<Rightarrow> (string \<times> pyval) list \<Rightarrow> int list \<Rightarrow> (string \<times> pyval) list" where
  "gpio_loop hw states [] = states"
| "gpio_loop hw states (pin_num # rest) =
     (case read_pin hw pin_num of
        Inl e \<Rightarrow> gpio_loop hw states rest
      | Inr v \<Rightarrow> gpio_loop hw (AList.update (pin_key pin_num) (PInt v) states) rest)"

definition get_gpio_states :: "gpio_hw \<Rightarrow> exn + pyval" where
  "get_gpio_states hw =
     try_except
       (case gpio_setup hw of
          Some e \<Rightarrow> Inl e
        | None \<Rightarrow> Inr (PDict (gpio_loop hw [] pin_numbers)))
       (\<lambda>e. Inr (error_record e))"

section \<open>I2C probe (i2c\_scanner.py)\<close>

record i2c_config =
  i2c_id :: int
  scl :: int
  sda :: int

definition i2c_configs :: "i2c_config list" where
  "i2c_configs = [\<lparr>i2c_id = 0, scl = 22, sda = 21\<rparr>, \<lparr>i2c_id = 1, scl = 25, sda = 26\<rparr>]"

text \<open>
  \<open>i2c_Pin n\<close> is the outcome of \<^verbatim>\<open>Pin(n)\<close>, \<open>I2C_new id scl sda\<close> that of the bus
  constructor (the bus object is identified by an integer) and \<open>I2C_scan bus\<close> that of
  \<^verbatim>\<open>i2c.scan()\<close>. \<open>i2c_setup\<close> is an exception raised in the outer \<^verbatim>\<open>try\<close> block before
  the loop over the configurations (lines 11 to 16), if any.
\<close>

record i2c_hw =
  i2c_setup :: "exn option"
  i2c_Pin :: "int \<Rightarrow> exn + int"
  I2C_new :: "int \<Rightarrow> int \<Rightarrow> int \<Rightarrow> exn + int"
  I2C_scan :: "int \<Rightarrow> exn + int list"

text \<open>
  Lines 20 and 21: the arguments are evaluated left to right, then the bus is built and
  scanned.
\<close>

definition config_scan :: "i2c_hw \<Rightarrow> i2c_config \<Rightarrow> exn + int list" where
  "config_scan hw config =
     (case i2c_Pin hw (scl config) of
        Inl e \<Rightarrow> Inl e
      | Inr pscl \<Rightarrow>
          (case i2c_Pin hw (sda config) of
             Inl e \<Rightarrow> Inl e
           | Inr psda \<Rightarrow>
               (case I2C_new hw (i2c_id config) pscl psda of
                  Inl e \<Rightarrow> Inl e
                | Inr i2c \<Rightarrow> I2C_scan hw i2c)))"

text \<open>Lines 23 to 25: append every device that is not in \<^verbatim>\<open>found_devices\<close> yet.\<close>

fun add_devices :: "int list \<Rightarrow> int list \<Rightarrow> int list" where
  "add_devices found_devices [] = found_devices"
| "add_devices found_devices (device # devices) =
     add_devices
       (if device \<notin> set found_devices then found_devices @ [device] else found_devices)
       devices"

text \<open>The loop over the configurations; \<^verbatim>\<open>except Exception: continue\<close> skips a failed one.\<close>

fun i2c_loop :: "i2c_hw \<Rightarrow> int list \<Rightarrow> i2c_config list \<Rightarrow> int list" where
  "i2c_loop hw found_devices [] = found_devices"
| "i2c_loop hw found_devices (config # rest) =
     (case config_scan hw config of
        Inl e \<Rightarrow> i2c_loop hw found_devices rest
      | Inr devices \<Rightarrow> i2c_loop hw (add_devices found_devices devices) rest)"

definition scan_i2c_devices :: "i2c_hw \<Rightarrow> exn + pyval" where
  "scan_i2c_devices hw =
     try_except
       (case i2c_setup hw of
          Some e \<Rightarrow> Inl e
        | None \<Rightarrow> Inr (PList (map PInt (i2c_loop hw [] i2c_configs))))
       (\<lambda>e. Inr (error_record e))"

section \<open>Wi-Fi probe (wifi\_scanner.py)\<close>

text \<open>
  A scanned network is the tuple the driver returns; the probe reads its elements 0 to 4.
  Bytes are 8-bit words.
\<close>

record wifi_net =
  net_ssid :: "8 word list"
  net_bssid :: "8 word list"
  net_channel :: int
  net_rssi :: int
  net_security :: int

text \<open>
  \<open>WLAN_new\<close> is the exception raised by \<^verbatim>\<open>network.WLAN(network.STA_IF)\<close>, if any,
  \<open>wlan_active\<close> that of \<^verbatim>\<open>wlan.active(True)\<close>, \<open>wlan_scan\<close> the outcome of
  \<^verbatim>\<open>wlan.scan()\<close>, and \<open>decode_utf8 bs\<close> the outcome of \<^verbatim>\<open>bs.decode('utf-8')\<close>, a function
  of the runtime which raises on bytes that are not UTF-8.
\<close>

record wifi_hw =
  WLAN_new :: "exn option"
  wlan_active :: "exn option"
  wlan_scan :: "exn + wifi_net list"
  decode_utf8 :: "8 word list \<Rightarrow> exn + string"

definition security_map :: "(int \<times> string) list" where
  "security_map =
     [(0, ''Open''), (1, ''WEP''), (2, ''WPA-PSK''), (3, ''WPA2-PSK''), (4, ''WPA/WPA2-PSK'')]"

text \<open>\<^verbatim>\<open>d.get(k, default)\<close>\<close>

definition dict_get :: "('k \<times> 'v) list \<Rightarrow> 'k \<Rightarrow> 'v \<Rightarrow> 'v" where
  "dict_get d k dflt = (case map_of d k of None \<Rightarrow> dflt | Some v \<Rightarrow> v)"

text \<open>Lines 19 to 40: the record of one network. An empty \<^verbatim>\<open>net[0]\<close> is falsy.\<close>

definition format_net :: "wifi_hw \<Rightarrow> wifi_net \<Rightarrow> exn + pyval" where
  "format_net hw net =
     (case (if net_ssid net \<noteq> [] then decode_utf8 hw (net_ssid net) else Inr '''') of
        Inl e \<Rightarrow> Inl e
      | Inr ssid \<Rightarrow>
          Inr (PDict
            [(''ssid'', PStr ssid),
             (''bssid'', PStr (join '':'' (map (\<lambda>b. fmt_02x (unat b)) (net_bssid net)))),
             (''channel'', PInt (net_channel net)),
             (''rssi'', PInt (net_rssi net)),
             (''security'', PStr (dict_get security_map (net_security net) ''Unknown''))]))"

text \<open>The loop over the scanned networks: nothing inside it catches an exception.\<close>

fun format_loop :: "wifi_hw \<Rightarrow> pyval list \<Rightarrow> wifi_net list \<Rightarrow> exn + pyval list" where
  "format_loop hw network_list [] = Inr network_list"
| "format_loop hw network_list (net # rest) =
     (case format_net hw net of
        Inl e \<Rightarrow> Inl e
      | Inr r \<Rightarrow> format_loop hw (network_list @ [r]) rest)"

definition scan_wifi_networks :: "wifi_hw \<Rightarrow> exn + pyval" where
  "scan_wifi_networks hw =
     try_except
       (case WLAN_new hw of
          Some e \<Rightarrow> Inl e
        | None \<Rightarrow>
            (case wlan_active hw of
               Some e \<Rightarrow> Inl e
             | None \<Rightarrow>
                 (case wlan_scan hw of
                    Inl e \<Rightarrow> Inl e
                  | Inr networks \<Rightarrow>
                      (case format_loop hw [] networks of
                         Inl e \<Rightarrow> Inl e
                       | Inr network_list \<Rightarrow> Inr (PList network_list)))))
       (\<lambda>e. Inr (error_record e))"

section \<open>System probe (system\_monitor.py)\<close>

text \<open>
  \<open>mem_free\<close>, \<open>mem_alloc\<close> and \<open>freq\<close> are the outcomes of \<^verbatim>\<open>gc.mem_free()\<close>,
  \<^verbatim>\<open>gc.mem_alloc()\<close> and \<^verbatim>\<open>machine.freq()\<close>. The function calls \<^verbatim>\<open>time.time()\<close> in two
  places, so \<open>time_time k\<close> is the outcome of the call made after \<open>k\<close> earlier calls.
  \<open>has_temperature\<close> is \<^verbatim>\<open>hasattr(machine, 'temperature')\<close> and \<open>temperature\<close> the outcome of
  \<^verbatim>\<open>machine.temperature()\<close>. Readings are integers.
\<close>

record sys_hw =
  mem_free :: "exn + int"
  mem_alloc :: "exn + int"
  freq :: "exn + int"
  time_time :: "nat \<Rightarrow> exn + int"
  has_temperature :: bool
  temperature :: "exn + int"

text \<open>
  Lines 12 to 19: the dictionary display evaluates its values in the order written.
  The result carries the number of calls of \<^verbatim>\<open>time.time()\<close> made so far, which the handler
  needs.
\<close>

definition collect_metrics :: "sys_hw \<Rightarrow> (exn \<times> nat) + (string \<times> pyval) list" where
  "collect_metrics hw =
     (case mem_free hw of
        Inl e \<Rightarrow> Inl (e, 0)
      | Inr free \<Rightarrow>
          (case mem_alloc hw of
             Inl e \<Rightarrow> Inl (e, 0)
           | Inr allocated \<Rightarrow>
               (case freq hw of
                  Inl e \<Rightarrow> Inl (e, 0)
                | Inr f \<Rightarrow>
                    (case time_time hw 0 of
                       Inl e \<Rightarrow> Inl (e, 1)
                     | Inr t \<Rightarrow>
                         Inr [(''memory'', PDict [(''free'', PInt free), (''allocated'', PInt allocated)]),
                              (''freq'', PInt f),
                              (''timestamp'', PInt t)]))))"

text \<open>Lines 22 to 26: the temperature, inside its own \<^verbatim>\<open>try\<close> with a bare \<^verbatim>\<open>except: pass\<close>.\<close>

definition add_temp :: "sys_hw \<Rightarrow> (string \<times> pyval) list \<Rightarrow> (string \<times> pyval) list" where
  "add_temp hw metrics =
     (if has_temperature hw then
        (case temperature hw of
           Inl e \<Rightarrow> metrics
         | Inr v \<Rightarrow> AList.update ''temp'' (PInt v) metrics)
      else metrics)"

text \<open>
  Line 30, the handler: \<^verbatim>\<open>{'error': str(e), 'timestamp': time.time()}\<close>. The call of
  \<^verbatim>\<open>time.time()\<close> is not inside any \<^verbatim>\<open>try\<close>: an exception it raises leaves the function.
\<close>

definition metrics_handler :: "sys_hw \<Rightarrow> exn \<times> nat \<Rightarrow> exn + pyval" where
  "metrics_handler hw ek =
     (case time_time hw (snd ek) of
        Inl e' \<Rightarrow> Inl e'
      | Inr t \<Rightarrow> Inr (PDict [(''error'', PStr (str_exn (fst ek))), (''timestamp'', PInt t)]))"

definition get_system_metrics :: "sys_hw \<Rightarrow> exn + pyval" where
  "get_system_metrics hw =
     (case collect_metrics hw of
        Inl ek \<Rightarrow> metrics_handler hw ek
      | Inr metrics \<Rightarrow> Inr (PDict (add_temp hw metrics)))"

section \<open>The marker line\<close>

text \<open>
  \<^verbatim>\<open>json.dumps\<close> belongs to the runtime library, not to this repository. \<open>json_dumps\<close>
  models it as the library documents it: the separators are \<^verbatim>\<open>", "\<close> and \<^verbatim>\<open>": "\<close>, and in
  a string the quote and the backslash are escaped with a backslash, a byte below 32 is
  written \<^verbatim>\<open>\n\<close>, \<^verbatim>\<open>\r\<close>, \<^verbatim>\<open>\t\<close> or \<^verbatim>\<open>\u00xx\<close>, and every other byte is copied.
\<close>

definition newline :: char where
  "newline = CHR 0x0A"

definition json_char :: "char \<Rightarrow> string" where
  "json_char c =
     (if c = CHR 0x22 \<or> c = CHR 0x5C then [CHR 0x5C, c]
      else if 32 \<le> (of_char c :: nat) then [c]
      else if c = CHR 0x0A then [CHR 0x5C, CHR ''n'']
      else if c = CHR 0x0D then [CHR 0x5C, CHR ''r'']
      else if c = CHR 0x09 then [CHR 0x5C, CHR ''t'']
      else [CHR 0x5C, CHR ''u'', CHR ''0'', CHR ''0''] @ fmt_02x (of_char c))"

definition json_str :: "string \<Rightarrow> string" where
  "json_str s = [CHR 0x22] @ concat (map json_char s) @ [CHR 0x22]"

fun json_dumps :: "pyval \<Rightarrow> string" where
  "json_dumps (PInt i) = str_int i"
| "json_dumps (PStr s) = json_str s"
| "json_dumps (PList xs) = ''['' @ join '', '' (map json_dumps xs) @ '']''"
| "json_dumps (PDict kvs) =
     ''{'' @ join '', '' (map (\<lambda>(k, v). json_str k @ '': '' @ json_dumps v) kvs) @ ''}''"

text \<open>
  \<^verbatim>\<open>print(f"<tag>{json.dumps(result)}")\<close> writes the text and a newline. A sender returns
  the text it wrote to the console, or the exception that left the probe function before
  \<^verbatim>\<open>print\<close> was reached.
\<close>

definition print_marker :: "string \<Rightarrow> exn + pyval \<Rightarrow> exn + string" where
  "print_marker tag result =
     (case result of Inl e \<Rightarrow> Inl e | Inr v \<Rightarrow> Inr (tag @ json_dumps v @ [newline]))"

definition send_gpio_states :: "gpio_hw \<Rightarrow> exn + string" where
  "send_gpio_states hw = print_marker ''__GPIO_STATE__'' (get_gpio_states hw)"

definition send_i2c_scan :: "i2c_hw \<Rightarrow> exn + string" where
  "send_i2c_scan hw = print_marker ''__I2C_DEVICES__'' (scan_i2c_devices hw)"

definition send_metrics :: "sys_hw \<Rightarrow> exn + string" where
  "send_metrics hw = print_marker ''__MONITOR_DATA__'' (get_system_metrics hw)"

definition send_wifi_scan :: "wifi_hw \<Rightarrow> exn + string" where
  "send_wifi_scan hw = print_marker ''__WIFI_SCAN__'' (scan_wifi_networks hw)"

section \<open>Reference definitions\<close>

text \<open>
  The entries of a list at the positions of their first occurrence: position \<open>i\<close> is
  kept when \<open>xs ! i\<close> does not occur before \<open>i\<close>.
\<close>

definition first_discovery :: "'a list \<Rightarrow> 'a list" where
  "first_discovery xs =
     map (\<lambda>i. xs ! i) (filter (\<lambda>i. xs ! i \<notin> set (take i xs)) [0..<length xs])"

text \<open>
  What the buses report, taken in configuration order, then scan order: the scans of the
  configurations that neither fail to initialise nor fail to scan, concatenated.
\<close>

fun discovered :: "i2c_hw \<Rightarrow> i2c_config list \<Rightarrow> int list" where
  "discovered hw [] = []"
| "discovered hw (config # rest) =
     (case config_scan hw config of Inl e \<Rightarrow> [] | Inr devices \<Rightarrow> devices) @ discovered hw rest"

text \<open>The security table, written out as a total function with its default branch.\<close>

definition security_label :: "int \<Rightarrow> string" where
  "security_label s =
     (if s = 0 then ''Open'' else if s = 1 then ''WEP'' else if s = 2 then ''WPA-PSK''
      else if s = 3 then ''WPA2-PSK'' else if s = 4 then ''WPA/WPA2-PSK'' else ''Unknown'')"

text \<open>A byte as two lowercase hexadecimal digits, high nibble first.\<close>

definition two_hex_digits :: "8 word \<Rightarrow> string" where
  "two_hex_digits b = [digit_char (unat b div 16), digit_char (unat b mod 16)]"

definition colon_hex :: "8 word list \<Rightarrow> string" where
  "colon_hex bs = join '':'' (map two_hex_digits bs)"

text \<open>
  The record of one network, from its SSID text: the BSSID as colon-separated two-digit
  hex, the channel and the signal strength of the tuple, and the security label.
\<close>

definition net_record :: "string \<Rightarrow> wifi_net \<Rightarrow> pyval" where
  "net_record ssid net =
     PDict
       [(''ssid'', PStr ssid),
        (''bssid'', PStr (colon_hex (net_bssid net))),
        (''channel'', PInt (net_channel net)),
        (''rssi'', PInt (net_rssi net)),
        (''security'', PStr (security_label (net_security net)))]"

section \<open>Sample hardware\<close>

text \<open>A board on which pin 2 reads 1 and no other pin can be read.\<close>

definition board_gpio :: gpio_hw where
  "board_gpio =
     \<lparr>gpio_setup = None,
      Pin_new = (\<lambda>n. Inr n),
      Pin_value = (\<lambda>p. if p = 2 then Inr 1 else Inl (Exception ''invalid pin''))\<rparr>"

text \<open>
  A board on which bus 0 answers at the addresses \<open>0x3C\<close> and \<open>0x68\<close> and bus 1 cannot be
  initialised.
\<close>

definition board_i2c :: i2c_hw where
  "board_i2c =
     \<lparr>i2c_setup = None,
      i2c_Pin = (\<lambda>n. Inr n),
      I2C_new = (\<lambda>i s d. if i = 0 then Inr i else Inl (Exception ''ENODEV'')),
      I2C_scan = (\<lambda>bus. Inr [0x3C, 0x68])\<rparr>"

text \<open>
  A board on which bus 0 cannot be initialised and bus 1 answers at \<open>0x20\<close>, \<open>0x3C\<close> and
  once more at \<open>0x20\<close>.
\<close>

definition second_bus_i2c :: i2c_hw where
  "second_bus_i2c =
     \<lparr>i2c_setup = None,
      i2c_Pin = (\<lambda>n. Inr n),
      I2C_new = (\<lambda>i s d. if i = 1 then Inr i else Inl (Exception ''ENODEV'')),
      I2C_scan = (\<lambda>bus. Inr [0x20, 0x3C, 0x20])\<rparr>"

text \<open>A board on which no pin can be configured.\<close>

definition dead_gpio :: gpio_hw where
  "dead_gpio =
     \<lparr>gpio_setup = None,
      Pin_new = (\<lambda>n. Inl (Exception ''invalid pin'')),
      Pin_value = (\<lambda>p. Inr 0)\<rparr>"

text \<open>A run in which the runtime fails before the loop over the pins starts.\<close>

definition broken_gpio :: gpio_hw where
  "broken_gpio = board_gpio\<lparr>gpio_setup := Some (Exception ''memory allocation failed'')\<rparr>"

text \<open>
  Three scanned networks: one with a security code outside the table, one with an empty
  SSID, one whose SSID bytes are not UTF-8.
\<close>

definition home_net :: wifi_net where
  "home_net =
     \<lparr>net_ssid = [0x68, 0x6F, 0x6D, 0x65],
      net_bssid = [0xAA, 0xBB, 0x0C, 0x01, 0x02, 0xFF],
      net_channel = 6, net_rssi = - 52, net_security = 7\<rparr>"

definition hidden_net :: wifi_net where
  "hidden_net =
     \<lparr>net_ssid = [],
      net_bssid = [0x00, 0x11, 0x22, 0x33, 0x44, 0x55],
      net_channel = 11, net_rssi = - 80, net_security = 3\<rparr>"

definition garbled_net :: wifi_net where
  "garbled_net = hidden_net\<lparr>net_ssid := [0xFF, 0xFE]\<rparr>"

text \<open>A decoder for the samples: it knows the bytes of \<open>home\<close> and rejects everything else.\<close>

definition sample_decode :: "8 word list \<Rightarrow> exn + string" where
  "sample_decode bs =
     (if bs = [0x68, 0x6F, 0x6D, 0x65] then Inr ''home'' else Inl (Exception ''UnicodeError''))"

text \<open>A scan that finds the first two networks, and one that finds all three.\<close>

definition quiet_wifi :: wifi_hw where
  "quiet_wifi =
     \<lparr>WLAN_new = None, wlan_active = None, wlan_scan = Inr [home_net, hidden_net],
      decode_utf8 = sample_decode\<rparr>"

definition noisy_wifi :: wifi_hw where
  "noisy_wifi = quiet_wifi\<lparr>wlan_scan := Inr [home_net, garbled_net, hidden_net]\<rparr>"

text \<open>
  A board without a temperature sensor; one whose \<^verbatim>\<open>machine.temperature()\<close> raises; one
  without \<^verbatim>\<open>gc.mem_free()\<close>; one whose clock raises on the first call only; and one
  whose \<^verbatim>\<open>time.time()\<close> raises on every call.
\<close>

definition plain_sys :: sys_hw where
  "plain_sys =
     \<lparr>mem_free = Inr 98304, mem_alloc = Inr 12288, freq = Inr 160000000,
      time_time = (\<lambda>k. Inr 700000000),
      has_temperature = False,
      temperature = Inl (Exception ''no temperature'')\<rparr>"

definition warm_sys :: sys_hw where
  "warm_sys = plain_sys\<lparr>has_temperature := True\<rparr>"

definition no_gc_sys :: sys_hw where
  "no_gc_sys = plain_sys\<lparr>mem_free := Inl (Exception ''no mem_free'')\<rparr>"

definition late_clock_sys :: sys_hw where
  "late_clock_sys =
     plain_sys\<lparr>time_time := (\<lambda>k. if k = 0 then Inl (Exception ''clock not set'') else Inr 700000001)\<rparr>"

definition clockless_sys :: sys_hw where
  "clockless_sys = plain_sys\<lparr>time_time := (\<lambda>k. Inl (Exception ''no clock''))\<rparr>"

section \<open>Formatting lemmas\<close>

lemma digit_char_mem: "d < 16 \<Longrightarrow> digit_char d \<in> set ''0123456789abcdef''"
  unfolding digit_char_def by (rule nth_mem) simp

lemma digit_char_inj: "d < 16 \<Longrightarrow> d' < 16 \<Longrightarrow> digit_char d = digit_char d' \<Longrightarrow> d = d'"
  unfolding digit_char_def
  by (subst (asm) nth_eq_iff_index_eq) simp_all

lemma str_nat_not_Nil: "str_nat n \<noteq> []"
  by (subst str_nat.simps) simp

lemma set_str_nat: "set (str_nat n) \<subseteq> set ''0123456789abcdef''"
proof (induction n rule: str_nat.induct)
  case (1 n)
  show ?case
  proof (cases "n < 10")
    case True
    then have "digit_char n \<in> set ''0123456789abcdef''" by (intro digit_char_mem) simp
    with True show ?thesis by (subst str_nat.simps) simp
  next
    case False
    have "digit_char (n mod 10) \<in> set ''0123456789abcdef''" by (intro digit_char_mem) simp
    with False "1.IH" show ?thesis by (subst str_nat.simps) simp
  qed
qed

lemma str_nat_inj: "str_nat n = str_nat m \<Longrightarrow> n = m"
proof (induction n arbitrary: m rule: str_nat.induct)
  case (1 n)
  show ?case
  proof (cases "n < 10")
    case n_small: True
    show ?thesis
    proof (cases "m < 10")
      case True
      with n_small "1.prems" have "digit_char n = digit_char m"
        by (simp add: str_nat.simps [of n] str_nat.simps [of m])
      with n_small True show ?thesis by (intro digit_char_inj) simp_all
    next
      case False
      with n_small "1.prems" have "str_nat (m div 10) = []"
        by (simp add: str_nat.simps [of n] str_nat.simps [of m])
      then show ?thesis by (simp add: str_nat_not_Nil)
    qed
  next
    case n_big: False
    show ?thesis
    proof (cases "m < 10")
      case True
      with n_big "1.prems" have "str_nat (n div 10) = []"
        by (simp add: str_nat.simps [of n] str_nat.simps [of m])
      then show ?thesis by (simp add: str_nat_not_Nil)
    next
      case False
      with n_big "1.prems" have eq: "str_nat (n div 10) = str_nat (m div 10)"
        and d: "digit_char (n mod 10) = digit_char (m mod 10)"
        by (simp_all add: str_nat.simps [of n] str_nat.simps [of m])
      from eq n_big have "n div 10 = m div 10" by (intro "1.IH") simp_all
      moreover from d have "n mod 10 = m mod 10" by (intro digit_char_inj) simp_all
      ultimately show ?thesis by (metis div_mult_mod_eq)
    qed
  qed
qed

lemma minus_notin_str_nat: "CHR ''-'' \<notin> set (str_nat n)"
  using set_str_nat [of n] by auto

lemma str_int_inj: "str_int i = str_int j \<Longrightarrow> i = j"
proof -
  assume eq: "str_int i = str_int j"
  have hd_digit: "\<And>n. hd (str_nat n) \<noteq> CHR ''-''"
    using minus_notin_str_nat str_nat_not_Nil by (metis hd_in_set)
  show ?thesis
  proof (cases "i < 0"; cases "j < 0")
    assume "i < 0" "j < 0"
    with eq have "nat (- i) = nat (- j)" by (simp add: str_int_def str_nat_inj)
    with \<open>i < 0\<close> \<open>j < 0\<close> show ?thesis by simp
  next
    assume "i < 0" "\<not> j < 0"
    moreover from eq have "hd (str_int i) = hd (str_int j)" by simp
    ultimately have "CHR ''-'' = hd (str_nat (nat j))" by (simp add: str_int_def)
    with hd_digit show ?thesis by metis
  next
    assume "\<not> i < 0" "j < 0"
    moreover from eq have "hd (str_int i) = hd (str_int j)" by simp
    ultimately have "CHR ''-'' = hd (str_nat (nat i))" by (simp add: str_int_def)
    with hd_digit show ?thesis by metis
  next
    assume "\<not> i < 0" "\<not> j < 0"
    with eq have "nat i = nat j" by (simp add: str_int_def str_nat_inj)
    with \<open>\<not> i < 0\<close> \<open>\<not> j < 0\<close> show ?thesis by simp
  qed
qed

lemma str_nat_digit: "n < 10 \<Longrightarrow> str_nat n = [digit_char n]"
  by (subst str_nat.simps) simp

lemma pin_key_inj: "pin_key p = pin_key q \<Longrightarrow> p = q"
  by (simp add: pin_key_def str_int_inj)

lemma pin_key_not_error: "pin_key p \<noteq> ''error''"
  by (simp add: pin_key_def)

lemma security_map_label: "dict_get security_map s ''Unknown'' = security_label s"
  by (simp add: dict_get_def security_map_def security_label_def)

lemma fmt_02x_small: "n < 256 \<Longrightarrow> fmt_02x n = [digit_char (n div 16), digit_char (n mod 16)]"
proof (cases "n < 16")
  case True
  then show ?thesis by (simp add: fmt_02x_def hex_nat.simps [of n] digit_char_def)
next
  case False
  assume "n < 256"
  then have "n div 16 < 16" by simp
  with False show ?thesis
    by (simp add: fmt_02x_def hex_nat.simps [of n] hex_nat.simps [of "n div 16"])
qed

lemma fmt_02x_byte: "fmt_02x (unat (b :: 8 word)) = two_hex_digits b"
proof -
  have "unat b < 256" using unsigned_less [of b] by simp
  then show ?thesis by (simp add: fmt_02x_small two_hex_digits_def)
qed

lemma bssid_colon_hex: "join '':'' (map (\<lambda>b. fmt_02x (unat b)) bs) = colon_hex bs"
  by (simp add: colon_hex_def fmt_02x_byte)

lemma two_hex_digits_lower:
  "length (two_hex_digits b) = 2 \<and> set (two_hex_digits b) \<subseteq> set ''0123456789abcdef''"
proof -
  have "unat b < 256" using unsigned_less [of b] by simp
  then have "unat b div 16 < 16" by simp
  then have "digit_char (unat b div 16) \<in> set ''0123456789abcdef''" by (rule digit_char_mem)
  moreover have "digit_char (unat b mod 16) \<in> set ''0123456789abcdef''"
    by (rule digit_char_mem) simp
  ultimately show ?thesis by (simp add: two_hex_digits_def)
qed

section \<open>First-discovery order\<close>

lemma first_discovery_snoc:
  "first_discovery (xs @ [x]) =
     (if x \<in> set xs then first_discovery xs else first_discovery xs @ [x])"
proof -
  have f: "filter (\<lambda>i. (xs @ [x]) ! i \<notin> set (take i (xs @ [x]))) [0..<length xs]
         = filter (\<lambda>i. xs ! i \<notin> set (take i xs)) [0..<length xs]"
    by (rule filter_cong) (simp_all add: nth_append)
  have m: "map (\<lambda>i. (xs @ [x]) ! i) (filter (\<lambda>i. xs ! i \<notin> set (take i xs)) [0..<length xs])
         = map (\<lambda>i. xs ! i) (filter (\<lambda>i. xs ! i \<notin> set (take i xs)) [0..<length xs])"
    by (rule map_cong) (simp_all add: nth_append)
  show ?thesis
    unfolding first_discovery_def using f m by simp
qed

lemma first_discovery_Nil: "first_discovery [] = []"
  by (simp add: first_discovery_def)

lemma set_first_discovery: "set (first_discovery xs) = set xs"
  by (induction xs rule: rev_induct) (auto simp: first_discovery_Nil first_discovery_snoc)

lemma distinct_first_discovery: "distinct (first_discovery xs)"
  by (induction xs rule: rev_induct)
     (auto simp: first_discovery_Nil first_discovery_snoc set_first_discovery)

lemma first_discovery_remdups: "first_discovery xs = rev (remdups (rev xs))"
  by (induction xs rule: rev_induct) (auto simp: first_discovery_Nil first_discovery_snoc)

section \<open>JSON text has no line break\<close>

lemma newline_notin_str_int: "newline \<notin> set (str_int i)"
  using set_str_nat [of "nat i"] set_str_nat [of "nat (- i)"]
  by (auto simp: str_int_def newline_def)

lemma set_hex_nat: "set (hex_nat n) \<subseteq> set ''0123456789abcdef''"
proof (induction n rule: hex_nat.induct)
  case (1 n)
  show ?case
  proof (cases "n < 16")
    case True
    then have "digit_char n \<in> set ''0123456789abcdef''" by (rule digit_char_mem)
    with True show ?thesis by (subst hex_nat.simps) simp
  next
    case False
    have "digit_char (n mod 16) \<in> set ''0123456789abcdef''" by (intro digit_char_mem) simp
    with False "1.IH" show ?thesis by (subst hex_nat.simps) simp
  qed
qed

lemma newline_notin_fmt_02x: "newline \<notin> set (fmt_02x n)"
  using set_hex_nat [of n] by (auto simp: fmt_02x_def Let_def newline_def)

lemma newline_notin_json_char: "newline \<notin> set (json_char c)"
proof (cases "c = newline")
  case True
  then show ?thesis by (simp add: json_char_def newline_def)
next
  case False
  then show ?thesis using newline_notin_fmt_02x [of "of_char c"]
    by (auto simp: json_char_def newline_def)
qed

lemma newline_notin_json_str: "newline \<notin> set (json_str s)"
  using newline_notin_json_char by (auto simp: json_str_def newline_def)

lemma newline_notin_join:
  "newline \<notin> set sep \<Longrightarrow> \<forall>x\<in>set xs. newline \<notin> set x \<Longrightarrow> newline \<notin> set (join sep xs)"
  by (induction sep xs rule: join.induct) auto

lemma newline_notin_json_dumps: "newline \<notin> set (json_dumps v)"
proof (induction v)
  case (PInt i)
  show ?case by (simp add: newline_notin_str_int)
next
  case (PStr s)
  show ?case by (simp add: newline_notin_json_str)
next
  case (PList xs)
  have "newline \<notin> set (join '', '' (map json_dumps xs))"
    by (rule newline_notin_join) (auto simp: newline_def PList [unfolded newline_def])
  then show ?case by (simp add: newline_def)
next
  case (PDict kvs)
  have "newline \<notin> set (join '', '' (map (\<lambda>(k, v). json_str k @ '': '' @ json_dumps v) kvs))"
  proof (rule newline_notin_join)
    show "newline \<notin> set '', ''" by (simp add: newline_def)
    show "\<forall>x\<in>set (map (\<lambda>(k, v). json_str k @ '': '' @ json_dumps v) kvs). newline \<notin> set x"
    proof
      fix x assume "x \<in> set (map (\<lambda>(k, v). json_str k @ '': '' @ json_dumps v) kvs)"
      then obtain k v where kv: "(k, v) \<in> set kvs" and x: "x = json_str k @ '': '' @ json_dumps v"
        by auto
      from kv have "newline \<notin> set (json_dumps v)" by (rule PDict) simp
      with x newline_notin_json_str [of k] show "newline \<notin> set x" by (simp add: newline_def)
    qed
  qed
  then show ?case by (simp add: newline_def)
qed

section \<open>GPIO probe: results\<close>

lemma gpio_loop_failed:
  "read_pin hw q = Inl e \<Longrightarrow>
   gpio_loop hw states (before @ q # after) = gpio_loop hw states (before @ after)"
  by (induction before arbitrary: states) (auto split: sum.splits)

lemma gpio_loop_other:
  "p \<notin> set pins \<or> (\<exists>e. read_pin hw p = Inl e) \<Longrightarrow>
   map_of (gpio_loop hw states pins) (pin_key p) = map_of states (pin_key p)"
proof (induction pins arbitrary: states)
  case Nil
  then show ?case by simp
next
  case (Cons q rest)
  show ?case
  proof (cases "read_pin hw q")
    case (Inl e)
    with Cons show ?thesis by auto
  next
    case (Inr v)
    with Cons.prems have "q \<noteq> p" by auto
    then have "pin_key q \<noteq> pin_key p" using pin_key_inj by blast
    moreover from Cons.prems have "p \<notin> set rest \<or> (\<exists>e. read_pin hw p = Inl e)" by auto
    ultimately show ?thesis using Inr Cons.IH by (simp add: update_conv')
  qed
qed

lemma gpio_loop_read:
  "p \<in> set pins \<Longrightarrow> read_pin hw p = Inr v \<Longrightarrow>
   map_of (gpio_loop hw states pins) (pin_key p) = Some (PInt v)"
proof (induction pins arbitrary: states)
  case Nil
  then show ?case by simp
next
  case (Cons q rest)
  show ?case
  proof (cases "p \<in> set rest")
    case True
    with Cons show ?thesis by (auto split: sum.splits)
  next
    case False
    with Cons.prems have "q = p" by simp
    moreover have "map_of (gpio_loop hw (AList.update (pin_key p) (PInt v) states) rest) (pin_key p)
        = map_of (AList.update (pin_key p) (PInt v) states) (pin_key p)"
      using False by (intro gpio_loop_other) simp
    ultimately show ?thesis using Cons.prems by (simp add: update_conv')
  qed
qed

lemma gpio_loop_keys:
  "fst ` set (gpio_loop hw states pins) \<subseteq> fst ` set states \<union> pin_key ` set pins"
proof (induction pins arbitrary: states)
  case Nil
  then show ?case by simp
next
  case (Cons q rest)
  show ?case
  proof (cases "read_pin hw q")
    case (Inl e)
    then show ?thesis using Cons.IH [of states] by auto
  next
    case (Inr v)
    then show ?thesis using Cons.IH [of "AList.update (pin_key q) (PInt v) states"]
      by (auto simp: dom_update)
  qed
qed

lemma gpio_loop_all_fail:
  "\<forall>p\<in>set pins. \<exists>e. read_pin hw p = Inl e \<Longrightarrow> gpio_loop hw states pins = states"
  by (induction pins arbitrary: states) auto

section \<open>I2C probe: results\<close>

lemma add_devices_first_discovery:
  "add_devices (first_discovery seen) devices = first_discovery (seen @ devices)"
proof (induction devices arbitrary: seen)
  case Nil
  then show ?case by simp
next
  case (Cons d ds)
  have "add_devices (first_discovery seen) (d # ds) = add_devices (first_discovery (seen @ [d])) ds"
    by (simp add: first_discovery_snoc set_first_discovery)
  also have "\<dots> = first_discovery ((seen @ [d]) @ ds)"
    by (rule Cons.IH)
  finally show ?case by simp
qed

lemma i2c_loop_first_discovery:
  "i2c_loop hw (first_discovery seen) configs = first_discovery (seen @ discovered hw configs)"
proof (induction configs arbitrary: seen)
  case Nil
  then show ?case by simp
next
  case (Cons c cs)
  show ?case
  proof (cases "config_scan hw c")
    case (Inl e)
    then show ?thesis using Cons.IH [of seen] by simp
  next
    case (Inr devices)
    then show ?thesis using Cons.IH [of "seen @ devices"]
      by (simp add: add_devices_first_discovery)
  qed
qed

lemma i2c_loop_from_empty: "i2c_loop hw [] configs = first_discovery (discovered hw configs)"
  using i2c_loop_first_discovery [of hw "[]" configs] by (simp add: first_discovery_Nil)

lemma i2c_loop_failed:
  "config_scan hw c = Inl e \<Longrightarrow>
   i2c_loop hw found (before @ c # after) = i2c_loop hw found (before @ after)"
  by (induction before arbitrary: found) (auto split: sum.splits)

lemma discovered_mem:
  "c \<in> set configs \<Longrightarrow> config_scan hw c = Inr devices \<Longrightarrow> set devices \<subseteq> set (discovered hw configs)"
  by (induction configs) auto

lemma discovered_range:
  "\<forall>bus devs. I2C_scan hw bus = Inr devs \<longrightarrow> (\<forall>d\<in>set devs. 0 \<le> d \<and> d \<le> 127) \<Longrightarrow>
   \<forall>d\<in>set (discovered hw configs). 0 \<le> d \<and> d \<le> 127"
proof (induction configs)
  case Nil
  then show ?case by simp
next
  case (Cons c cs)
  have "\<forall>d\<in>set devs. 0 \<le> d \<and> d \<le> 127" if "config_scan hw c = Inr devs" for devs
  proof -
    from that obtain bus where "I2C_scan hw bus = Inr devs"
      by (auto simp: config_scan_def split: sum.splits)
    with Cons.prems show ?thesis by blast
  qed
  note here = this
  show ?case
  proof (cases "config_scan hw c")
    case (Inl e)
    with Cons show ?thesis by simp
  next
    case (Inr devs)
    with Cons here [of devs] show ?thesis by auto
  qed
qed

lemma board_i2c_scan0: "config_scan board_i2c \<lparr>i2c_id = 0, scl = 22, sda = 21\<rparr> = Inr [0x3C, 0x68]"
  by (simp add: config_scan_def board_i2c_def)

lemma board_i2c_scan1: "config_scan board_i2c \<lparr>i2c_id = 1, scl = 25, sda = 26\<rparr> = Inl (Exception ''ENODEV'')"
  by (simp add: config_scan_def board_i2c_def)

text \<open>
  C4. When the probe does not fail before its loop, its result is the list of the
  addresses the buses report (configuration order, then scan order) at the positions of
  their first occurrence; it has no duplicates, and all its entries are in 0..127 when
  every bus scan yields addresses in that range.
\<close>

theorem i2c_first_discovery_order:
  assumes "i2c_setup hw = None"
  shows "\<exists>ds. scan_i2c_devices hw = Inr (PList (map PInt ds))
           \<and> ds = first_discovery (discovered hw i2c_configs)
           \<and> distinct ds
           \<and> ((\<forall>bus devs. I2C_scan hw bus = Inr devs \<longrightarrow> (\<forall>d\<in>set devs. 0 \<le> d \<and> d \<le> 127))
                \<longrightarrow> (\<forall>d\<in>set ds. 0 \<le> d \<and> d \<le> 127))"
proof -
  have "scan_i2c_devices hw = Inr (PList (map PInt (first_discovery (discovered hw i2c_configs))))"
    using assms by (simp add: scan_i2c_devices_def try_except_def i2c_loop_from_empty)
  moreover have "distinct (first_discovery (discovered hw i2c_configs))"
    by (rule distinct_first_discovery)
  moreover have "(\<forall>bus devs. I2C_scan hw bus = Inr devs \<longrightarrow> (\<forall>d\<in>set devs. 0 \<le> d \<and> d \<le> 127))
       \<longrightarrow> (\<forall>d\<in>set (first_discovery (discovered hw i2c_configs)). 0 \<le> d \<and> d \<le> 127)"
    using discovered_range [of hw i2c_configs] by (simp add: set_first_discovery)
  ultimately show ?thesis by blast
qed

theorem i2c_first_discovery_order_witness:
  "i2c_setup board_i2c = None
   \<and> I2C_scan board_i2c 0 = Inr [60, 104]
   \<and> scan_i2c_devices board_i2c = Inr (PList [PInt 60, PInt 104])
   \<and> first_discovery (discovered board_i2c i2c_configs) = [60, 104]
   \<and> distinct [60, 104 :: int]"
proof -
  have h: "i2c_setup board_i2c = None" by (simp add: board_i2c_def)
  have r: "\<forall>bus devs. I2C_scan board_i2c bus = Inr devs \<longrightarrow> (\<forall>d\<in>set devs. 0 \<le> d \<and> d \<le> 127)"
    by (auto simp: board_i2c_def)
  have d: "discovered board_i2c i2c_configs = [60, 104]"
    by (simp add: i2c_configs_def board_i2c_scan0 board_i2c_scan1)
  have f: "first_discovery [60, 104 :: int] = [60, 104]"
    by (simp add: first_discovery_def upt_rec)
  have s: "I2C_scan board_i2c 0 = Inr [60, 104]" by (simp add: board_i2c_def)
  from i2c_first_discovery_order [OF h] h r d f s show ?thesis by auto
qed

section \<open>Claims about the GPIO and I2C probes\<close>

lemma pin_key_2: "pin_key 2 = ''pin_2''"
  by (simp add: pin_key_def str_int_def str_nat_digit digit_char_def)

lemma board_gpio_read_2: "read_pin board_gpio 2 = Inr 1"
  by (simp add: read_pin_def board_gpio_def)

lemma board_gpio_read_4: "read_pin board_gpio 4 = Inl (Exception ''invalid pin'')"
  by (simp add: read_pin_def board_gpio_def)

lemma get_gpio_states_ok:
  "gpio_setup hw = None \<Longrightarrow> get_gpio_states hw = Inr (PDict (gpio_loop hw [] pin_numbers))"
  by (simp add: get_gpio_states_def try_except_def)

lemma get_gpio_states_error:
  "gpio_setup hw = Some e \<Longrightarrow> get_gpio_states hw = Inr (PDict [(''error'', PStr (str_exn e))])"
  by (simp add: get_gpio_states_def try_except_def error_record_def)

lemma gpio_loop_no_error_key: "''error'' \<notin> fst ` set (gpio_loop hw [] pins)"
proof
  assume "''error'' \<in> fst ` set (gpio_loop hw [] pins)"
  with gpio_loop_keys [of hw "[]" pins] obtain p where "''error'' = pin_key p" by auto
  with pin_key_not_error [of p] show False by simp
qed

lemma scan_i2c_devices_ok:
  "i2c_setup hw = None \<Longrightarrow>
   scan_i2c_devices hw = Inr (PList (map PInt (i2c_loop hw [] i2c_configs)))"
  by (simp add: scan_i2c_devices_def try_except_def)

lemma i2c_loop_removeAll:
  "config_scan hw c = Inl e \<Longrightarrow> i2c_loop hw found configs = i2c_loop hw found (removeAll c configs)"
  by (induction configs arbitrary: found) (auto split: sum.splits)

lemma second_bus_scan0:
  "config_scan second_bus_i2c \<lparr>i2c_id = 0, scl = 22, sda = 21\<rparr> = Inl (Exception ''ENODEV'')"
  by (simp add: config_scan_def second_bus_i2c_def)

lemma second_bus_scan1:
  "config_scan second_bus_i2c \<lparr>i2c_id = 1, scl = 25, sda = 26\<rparr> = Inr [0x20, 0x3C, 0x20]"
  by (simp add: config_scan_def second_bus_i2c_def)

lemma first_discovery_sample: "first_discovery [0x20, 0x3C, 0x20 :: int] = [0x20, 0x3C]"
  by (simp add: first_discovery_def upt_rec)

lemma first_discovery_pair: "first_discovery [0x3C, 0x68 :: int] = [0x3C, 0x68]"
  by (simp add: first_discovery_def upt_rec)

text \<open>
  C2. A unit whose access fails does not change what the successfully read units
  contribute. GPIO: a pin of the candidate list that reads \<open>v\<close> is in the result under
  its key with the value \<open>v\<close>, whatever the other pins do, and a pin whose read fails
  leaves the result as if it were not a candidate. I2C: the addresses of a configuration
  whose scan succeeds are all in the result, of the loop and of the probe, whatever the
  other configurations do. Over the pins \<open>[2, 4]\<close>, where pin 2 reads 1 and pin 4 raises,
  the result is exactly \<^verbatim>\<open>{"pin_2": 1}\<close>.
\<close>

theorem partial_results:
  "(p \<in> set pins \<and> read_pin hw p = Inr v \<longrightarrow>
      map_of (gpio_loop hw [] pins) (pin_key p) = Some (PInt v))
   \<and> (read_pin hw q = Inl e \<longrightarrow>
      gpio_loop hw states (before @ q # after) = gpio_loop hw states (before @ after))
   \<and> (gpio_setup hw = None \<and> p \<in> set pin_numbers \<and> read_pin hw p = Inr v \<longrightarrow>
      (\<exists>d. get_gpio_states hw = Inr (PDict d) \<and> map_of d (pin_key p) = Some (PInt v)))
   \<and> (c \<in> set configs \<and> config_scan ihw c = Inr devices \<longrightarrow>
      set devices \<subseteq> set (i2c_loop ihw [] configs))
   \<and> (i2c_setup ihw = None \<and> c \<in> set i2c_configs \<and> config_scan ihw c = Inr devices \<longrightarrow>
      (\<exists>ds. scan_i2c_devices ihw = Inr (PList (map PInt ds)) \<and> set devices \<subseteq> set ds
            \<and> ds = first_discovery (discovered ihw i2c_configs)))
   \<and> (read_pin hw 2 = Inr 1 \<and> read_pin hw 4 = Inl e \<longrightarrow>
      gpio_loop hw [] [2, 4] = [(''pin_2'', PInt 1)])"
proof (intro conjI impI)
  assume "p \<in> set pins \<and> read_pin hw p = Inr v"
  then show "map_of (gpio_loop hw [] pins) (pin_key p) = Some (PInt v)"
    by (simp add: gpio_loop_read)
next
  assume "read_pin hw q = Inl e"
  then show "gpio_loop hw states (before @ q # after) = gpio_loop hw states (before @ after)"
    by (rule gpio_loop_failed)
next
  assume "gpio_setup hw = None \<and> p \<in> set pin_numbers \<and> read_pin hw p = Inr v"
  then show "\<exists>d. get_gpio_states hw = Inr (PDict d) \<and> map_of d (pin_key p) = Some (PInt v)"
    by (simp add: get_gpio_states_ok gpio_loop_read)
next
  assume "c \<in> set configs \<and> config_scan ihw c = Inr devices"
  then have "set devices \<subseteq> set (discovered ihw configs)"
    using discovered_mem [of c configs ihw devices] by blast
  then show "set devices \<subseteq> set (i2c_loop ihw [] configs)"
    by (simp add: i2c_loop_from_empty set_first_discovery)
next
  assume a: "i2c_setup ihw = None \<and> c \<in> set i2c_configs \<and> config_scan ihw c = Inr devices"
  then have "set devices \<subseteq> set (discovered ihw i2c_configs)"
    using discovered_mem [of c i2c_configs ihw devices] by blast
  then have "set devices \<subseteq> set (first_discovery (discovered ihw i2c_configs))"
    by (simp add: set_first_discovery)
  moreover from a have "scan_i2c_devices ihw
      = Inr (PList (map PInt (first_discovery (discovered ihw i2c_configs))))"
    by (simp add: scan_i2c_devices_ok i2c_loop_from_empty)
  ultimately show "\<exists>ds. scan_i2c_devices ihw = Inr (PList (map PInt ds)) \<and> set devices \<subseteq> set ds
      \<and> ds = first_discovery (discovered ihw i2c_configs)"
    by blast
next
  assume "read_pin hw 2 = Inr 1 \<and> read_pin hw 4 = Inl e"
  then show "gpio_loop hw [] [2, 4] = [(''pin_2'', PInt 1)]"
    by (simp add: pin_key_2)
qed

theorem partial_results_witness:
  "read_pin board_gpio 2 = Inr 1
   \<and> read_pin board_gpio 4 = Inl (Exception ''invalid pin'')
   \<and> gpio_setup board_gpio = None
   \<and> map_of (gpio_loop board_gpio [] [2, 4]) ''pin_2'' = Some (PInt 1)
   \<and> gpio_loop board_gpio [] ([2] @ 4 # []) = gpio_loop board_gpio [] ([2] @ [])
   \<and> (\<exists>d. get_gpio_states board_gpio = Inr (PDict d) \<and> map_of d ''pin_2'' = Some (PInt 1))
   \<and> i2c_setup second_bus_i2c = None
   \<and> config_scan second_bus_i2c \<lparr>i2c_id = 0, scl = 22, sda = 21\<rparr> = Inl (Exception ''ENODEV'')
   \<and> config_scan second_bus_i2c \<lparr>i2c_id = 1, scl = 25, sda = 26\<rparr> = Inr [32, 60, 32]
   \<and> set [32, 60, 32] \<subseteq> set (i2c_loop second_bus_i2c [] i2c_configs)
   \<and> scan_i2c_devices second_bus_i2c = Inr (PList [PInt 32, PInt 60])
   \<and> gpio_loop board_gpio [] [2, 4] = [(''pin_2'', PInt 1)]"
proof -
  have s: "i2c_setup second_bus_i2c = None" by (simp add: second_bus_i2c_def)
  have m: "\<lparr>i2c_id = 1, scl = 25, sda = 26\<rparr> \<in> set i2c_configs" by (simp add: i2c_configs_def)
  have d: "discovered second_bus_i2c i2c_configs = [32, 60, 32]"
    by (simp add: i2c_configs_def second_bus_scan0 second_bus_scan1)
  note t = partial_results [of 2 "[2, 4]" board_gpio 1 4 "Exception ''invalid pin''" "[]" "[2]" "[]"
      "\<lparr>i2c_id = 1, scl = 25, sda = 26\<rparr>" i2c_configs second_bus_i2c "[32, 60, 32]"]
  from t s m second_bus_scan1 d first_discovery_sample
  have probe: "scan_i2c_devices second_bus_i2c = Inr (PList [PInt 32, PInt 60])"
    by auto
  from t m second_bus_scan1
  have loop: "set [32, 60, 32] \<subseteq> set (i2c_loop second_bus_i2c [] i2c_configs)"
    by blast
  from t board_gpio_read_2 board_gpio_read_4
  have gpio: "map_of (gpio_loop board_gpio [] [2, 4]) ''pin_2'' = Some (PInt 1)
      \<and> gpio_loop board_gpio [] ([2] @ 4 # []) = gpio_loop board_gpio [] ([2] @ [])
      \<and> (\<exists>d. get_gpio_states board_gpio = Inr (PDict d) \<and> map_of d ''pin_2'' = Some (PInt 1))
      \<and> gpio_loop board_gpio [] [2, 4] = [(''pin_2'', PInt 1)]"
    by (simp add: pin_key_2 pin_numbers_def board_gpio_def)
  from gpio probe loop s second_bus_scan0 second_bus_scan1 board_gpio_read_2 board_gpio_read_4
  show ?thesis by (simp add: board_gpio_def)
qed

text \<open>
  C5. A configuration whose initialisation or scan raises is skipped, and only it. The
  loop gives what it gives without that configuration, and so does the probe: its result
  is that of the loop over the other configurations, so when one of the two
  configurations fails the probe returns the addresses of the other one, whichever comes
  first. When configuration 0 yields \<open>[0x3C, 0x68]\<close> and configuration 1 fails, the probe
  returns \<open>[60, 104]\<close>, not an error record.
\<close>

theorem i2c_failed_config_skipped:
  "(config_scan hw c = Inl e \<longrightarrow>
      i2c_loop hw found (before @ c # after) = i2c_loop hw found (before @ after))
   \<and> (i2c_setup hw = None \<and> c \<in> set i2c_configs \<and> config_scan hw c = Inl e \<longrightarrow>
      scan_i2c_devices hw = Inr (PList (map PInt (i2c_loop hw [] (removeAll c i2c_configs)))))
   \<and> (i2c_setup hw = None
        \<and> config_scan hw (i2c_configs ! 0) = Inl e
        \<and> config_scan hw (i2c_configs ! 1) = Inr devices \<longrightarrow>
      scan_i2c_devices hw = Inr (PList (map PInt (first_discovery devices))))
   \<and> (i2c_setup hw = None
        \<and> config_scan hw (i2c_configs ! 0) = Inr devices
        \<and> config_scan hw (i2c_configs ! 1) = Inl e \<longrightarrow>
      scan_i2c_devices hw = Inr (PList (map PInt (first_discovery devices))))
   \<and> (i2c_setup hw = None
        \<and> config_scan hw (i2c_configs ! 0) = Inr [0x3C, 0x68]
        \<and> config_scan hw (i2c_configs ! 1) = Inl e \<longrightarrow>
      scan_i2c_devices hw = Inr (PList [PInt 60, PInt 104]))"
proof (intro conjI impI)
  assume "config_scan hw c = Inl e"
  then show "i2c_loop hw found (before @ c # after) = i2c_loop hw found (before @ after)"
    by (rule i2c_loop_failed)
next
  assume a: "i2c_setup hw = None \<and> c \<in> set i2c_configs \<and> config_scan hw c = Inl e"
  then have "i2c_loop hw [] i2c_configs = i2c_loop hw [] (removeAll c i2c_configs)"
    using i2c_loop_removeAll [of hw c e "[]" i2c_configs] by blast
  with a show "scan_i2c_devices hw = Inr (PList (map PInt (i2c_loop hw [] (removeAll c i2c_configs))))"
    by (simp add: scan_i2c_devices_ok)
next
  assume a: "i2c_setup hw = None
        \<and> config_scan hw (i2c_configs ! 0) = Inl e
        \<and> config_scan hw (i2c_configs ! 1) = Inr devices"
  then have "discovered hw i2c_configs = devices" by (simp add: i2c_configs_def)
  with a show "scan_i2c_devices hw = Inr (PList (map PInt (first_discovery devices)))"
    by (simp add: scan_i2c_devices_ok i2c_loop_from_empty)
next
  assume a: "i2c_setup hw = None
        \<and> config_scan hw (i2c_configs ! 0) = Inr devices
        \<and> config_scan hw (i2c_configs ! 1) = Inl e"
  then have "discovered hw i2c_configs = devices" by (simp add: i2c_configs_def)
  with a show "scan_i2c_devices hw = Inr (PList (map PInt (first_discovery devices)))"
    by (simp add: scan_i2c_devices_ok i2c_loop_from_empty)
next
  assume "i2c_setup hw = None
        \<and> config_scan hw (i2c_configs ! 0) = Inr [0x3C, 0x68]
        \<and> config_scan hw (i2c_configs ! 1) = Inl e"
  then show "scan_i2c_devices hw = Inr (PList [PInt 60, PInt 104])"
    by (simp add: scan_i2c_devices_def try_except_def i2c_configs_def)
qed

theorem i2c_failed_config_skipped_witness:
  "config_scan board_i2c (i2c_configs ! 1) = Inl (Exception ''ENODEV'')
   \<and> config_scan board_i2c (i2c_configs ! 0) = Inr [0x3C, 0x68]
   \<and> i2c_setup board_i2c = None
   \<and> i2c_configs ! 1 \<in> set i2c_configs
   \<and> i2c_loop board_i2c [] ([i2c_configs ! 0] @ (i2c_configs ! 1) # [])
        = i2c_loop board_i2c [] ([i2c_configs ! 0] @ [])
   \<and> scan_i2c_devices board_i2c
        = Inr (PList (map PInt (i2c_loop board_i2c [] (removeAll (i2c_configs ! 1) i2c_configs))))
   \<and> scan_i2c_devices board_i2c = Inr (PList [PInt 60, PInt 104])
   \<and> i2c_setup second_bus_i2c = None
   \<and> config_scan second_bus_i2c (i2c_configs ! 0) = Inl (Exception ''ENODEV'')
   \<and> config_scan second_bus_i2c (i2c_configs ! 1) = Inr [32, 60, 32]
   \<and> scan_i2c_devices second_bus_i2c = Inr (PList [PInt 32, PInt 60])"
proof -
  have b: "i2c_setup board_i2c = None" and s: "i2c_setup second_bus_i2c = None"
    by (simp_all add: board_i2c_def second_bus_i2c_def)
  have b0: "config_scan board_i2c (i2c_configs ! 0) = Inr [0x3C, 0x68]"
    and b1: "config_scan board_i2c (i2c_configs ! 1) = Inl (Exception ''ENODEV'')"
    and s0: "config_scan second_bus_i2c (i2c_configs ! 0) = Inl (Exception ''ENODEV'')"
    and s1: "config_scan second_bus_i2c (i2c_configs ! 1) = Inr [32, 60, 32]"
    using board_i2c_scan0 board_i2c_scan1 second_bus_scan0 second_bus_scan1
    by (simp_all add: i2c_configs_def)
  have m: "i2c_configs ! 1 \<in> set i2c_configs" by (simp add: i2c_configs_def)
  note tb = i2c_failed_config_skipped [of board_i2c "i2c_configs ! 1" "Exception ''ENODEV''" "[]"
      "[i2c_configs ! 0]" "[]" "[0x3C, 0x68]"]
  note ts = i2c_failed_config_skipped [of second_bus_i2c "i2c_configs ! 0" "Exception ''ENODEV''"
      "[]" "[]" "[i2c_configs ! 1]" "[32, 60, 32]"]
  from tb b b0 b1 m
  have 1: "i2c_loop board_i2c [] ([i2c_configs ! 0] @ (i2c_configs ! 1) # [])
        = i2c_loop board_i2c [] ([i2c_configs ! 0] @ [])"
    and 2: "scan_i2c_devices board_i2c
        = Inr (PList (map PInt (i2c_loop board_i2c [] (removeAll (i2c_configs ! 1) i2c_configs))))"
    and 3: "scan_i2c_devices board_i2c = Inr (PList [PInt 60, PInt 104])"
    by blast+
  from ts s s0 s1
  have "scan_i2c_devices second_bus_i2c = Inr (PList (map PInt (first_discovery [32, 60, 32])))"
    by blast
  then have 4: "scan_i2c_devices second_bus_i2c = Inr (PList [PInt 32, PInt 60])"
    using first_discovery_sample by simp
  from b s b0 b1 s0 s1 m 1 2 3 4 show ?thesis by simp
qed

text \<open>
  C7. When every candidate pin fails, the GPIO probe returns the empty dictionary. The
  error record is returned exactly when an exception is raised outside the per-pin
  \<^verbatim>\<open>try\<close>, and then it is the whole result: a result with the key \<open>error\<close> has no other
  key.
\<close>

theorem gpio_empty_not_error:
  "(gpio_setup hw = None \<and> (\<forall>p\<in>set pin_numbers. \<exists>e. read_pin hw p = Inl e) \<longrightarrow>
      get_gpio_states hw = Inr (PDict []))
   \<and> (gpio_setup hw = Some e \<longrightarrow>
      get_gpio_states hw = Inr (PDict [(''error'', PStr (str_exn e))]))
   \<and> (get_gpio_states hw = Inr (PDict states) \<and> ''error'' \<in> fst ` set states \<longrightarrow>
      (\<exists>e'. gpio_setup hw = Some e' \<and> states = [(''error'', PStr (str_exn e'))]))"
proof (intro conjI impI)
  assume "gpio_setup hw = None \<and> (\<forall>p\<in>set pin_numbers. \<exists>e. read_pin hw p = Inl e)"
  then show "get_gpio_states hw = Inr (PDict [])"
    by (simp add: get_gpio_states_ok gpio_loop_all_fail)
next
  assume "gpio_setup hw = Some e"
  then show "get_gpio_states hw = Inr (PDict [(''error'', PStr (str_exn e))])"
    by (rule get_gpio_states_error)
next
  assume a: "get_gpio_states hw = Inr (PDict states) \<and> ''error'' \<in> fst ` set states"
  show "\<exists>e'. gpio_setup hw = Some e' \<and> states = [(''error'', PStr (str_exn e'))]"
  proof (cases "gpio_setup hw")
    case None
    with a have "states = gpio_loop hw [] pin_numbers" by (simp add: get_gpio_states_ok)
    with a gpio_loop_no_error_key [of hw pin_numbers] show ?thesis by simp
  next
    case (Some e')
    with a show ?thesis by (simp add: get_gpio_states_error)
  qed
qed

theorem gpio_empty_not_error_witness:
  "gpio_setup dead_gpio = None
   \<and> read_pin dead_gpio 2 = Inl (Exception ''invalid pin'')
   \<and> get_gpio_states dead_gpio = Inr (PDict [])
   \<and> gpio_setup broken_gpio = Some (Exception ''memory allocation failed'')
   \<and> get_gpio_states broken_gpio = Inr (PDict [(''error'', PStr ''memory allocation failed'')])
   \<and> ''error'' \<in> fst ` set [(''error'', PStr ''memory allocation failed'')]"
proof -
  have d: "gpio_setup dead_gpio = None \<and> (\<forall>p\<in>set pin_numbers. \<exists>e. read_pin dead_gpio p = Inl e)"
    by (simp add: dead_gpio_def read_pin_def)
  have b: "gpio_setup broken_gpio = Some (Exception ''memory allocation failed'')"
    by (simp add: broken_gpio_def)
  have r: "read_pin dead_gpio 2 = Inl (Exception ''invalid pin'')"
    by (simp add: dead_gpio_def read_pin_def)
  from gpio_empty_not_error [of dead_gpio "Exception ''x''" "[]"] d
  have 1: "get_gpio_states dead_gpio = Inr (PDict [])" by blast
  from gpio_empty_not_error [of broken_gpio "Exception ''memory allocation failed''" "[]"] b
  have 2: "get_gpio_states broken_gpio = Inr (PDict [(''error'', PStr ''memory allocation failed'')])"
    by simp
  from d b r 1 2 show ?thesis by simp
qed

section \<open>Claims about the Wi-Fi probe\<close>

lemma format_net_empty: "net_ssid net = [] \<Longrightarrow> format_net hw net = Inr (net_record '''' net)"
  by (simp add: format_net_def net_record_def security_map_label bssid_colon_hex)

lemma format_net_decoded:
  "net_ssid net \<noteq> [] \<Longrightarrow> decode_utf8 hw (net_ssid net) = Inr s \<Longrightarrow>
   format_net hw net = Inr (net_record s net)"
  by (simp add: format_net_def net_record_def security_map_label bssid_colon_hex)

lemma format_net_fails:
  "net_ssid net \<noteq> [] \<Longrightarrow> decode_utf8 hw (net_ssid net) = Inl e \<Longrightarrow> format_net hw net = Inl e"
  by (simp add: format_net_def)

lemma format_loop_all:
  "list_all2 (\<lambda>net r. format_net hw net = Inr r) nets records \<Longrightarrow>
   format_loop hw network_list nets = Inr (network_list @ records)"
proof (induction nets arbitrary: network_list records)
  case Nil
  then show ?case by simp
next
  case (Cons n ns)
  then obtain r rs where rs: "records = r # rs" "format_net hw n = Inr r"
    "list_all2 (\<lambda>net r. format_net hw net = Inr r) ns rs"
    by (auto simp: list_all2_Cons1)
  with Cons.IH [of rs "network_list @ [r]"] show ?case by simp
qed

lemma format_loop_stops:
  "\<forall>n\<in>set before. \<exists>r. format_net hw n = Inr r \<Longrightarrow> format_net hw net = Inl e \<Longrightarrow>
   format_loop hw network_list (before @ net # after) = Inl e"
  by (induction before arbitrary: network_list) auto

lemma scan_wifi_networks_body:
  "WLAN_new hw = None \<Longrightarrow> wlan_active hw = None \<Longrightarrow> wlan_scan hw = Inr nets \<Longrightarrow>
   scan_wifi_networks hw =
     (case format_loop hw [] nets of
        Inl e \<Rightarrow> Inr (PDict [(''error'', PStr (str_exn e))])
      | Inr network_list \<Rightarrow> Inr (PList network_list))"
  by (simp add: scan_wifi_networks_def try_except_def error_record_def split: sum.splits)

lemma format_loop_some_error:
  "format_net hw net = Inl e \<Longrightarrow> \<exists>e'. format_loop hw network_list (before @ net # after) = Inl e'"
  by (induction before arbitrary: network_list) (auto split: sum.splits)

lemma home_record:
  "net_record ''home'' home_net =
     PDict [(''ssid'', PStr ''home''), (''bssid'', PStr ''aa:bb:0c:01:02:ff''),
            (''channel'', PInt 6), (''rssi'', PInt (- 52)), (''security'', PStr ''Unknown'')]"
  by (simp add: net_record_def home_net_def colon_hex_def two_hex_digits_def digit_char_def
      security_label_def)

lemma format_home: "format_net quiet_wifi home_net = Inr (net_record ''home'' home_net)"
  by (rule format_net_decoded) (simp_all add: quiet_wifi_def home_net_def sample_decode_def)

lemma format_garbled: "format_net quiet_wifi garbled_net = Inl (Exception ''UnicodeError'')"
  by (rule format_net_fails)
     (simp_all add: quiet_wifi_def garbled_net_def hidden_net_def sample_decode_def)

lemma format_net_scan_irrelevant: "format_net (hw\<lparr>wlan_scan := s\<rparr>) net = format_net hw net"
  by (simp add: format_net_def)

text \<open>
  C3, as amended. When the interface comes up, the scan returns and every non-empty SSID
  of the scan decodes, the probe returns one record per scanned network, in scan order.
  The record's \<open>ssid\<close> is the decoded text, or the empty string for an empty SSID; its
  \<open>bssid\<close> is the BSSID bytes as lowercase two-digit hex joined by colons; \<open>channel\<close> and
  \<open>rssi\<close> are the tuple's; \<open>security\<close> is the label of the table 0 to 4, and \<open>Unknown\<close>
  for every other code.
\<close>

theorem wifi_records:
  assumes "WLAN_new hw = None" and "wlan_active hw = None" and "wlan_scan hw = Inr nets"
    and "\<forall>net\<in>set nets. net_ssid net \<noteq> [] \<longrightarrow> (\<exists>s. decode_utf8 hw (net_ssid net) = Inr s)"
  shows "\<exists>records. scan_wifi_networks hw = Inr (PList records)
           \<and> list_all2
               (\<lambda>net r. \<exists>s. (if net_ssid net = [] then s = ''''
                               else decode_utf8 hw (net_ssid net) = Inr s)
                          \<and> r = net_record s net)
               nets records"
proof -
  define ssid where
    "ssid net = (if net_ssid net = [] then '''' else projr (decode_utf8 hw (net_ssid net)))"
    for net :: wifi_net
  have each: "format_net hw net = Inr (net_record (ssid net) net)
      \<and> (if net_ssid net = [] then ssid net = '''' else decode_utf8 hw (net_ssid net) = Inr (ssid net))"
    if "net \<in> set nets" for net
  proof (cases "net_ssid net = []")
    case True
    then show ?thesis by (simp add: ssid_def format_net_empty)
  next
    case False
    with assms(4) that obtain s where "decode_utf8 hw (net_ssid net) = Inr s" by blast
    with False show ?thesis by (simp add: ssid_def format_net_decoded)
  qed
  let ?records = "map (\<lambda>net. net_record (ssid net) net) nets"
  have "list_all2 (\<lambda>net r. format_net hw net = Inr r) nets ?records"
    using each by (simp add: list_all2_map2 list_all2_same)
  then have "format_loop hw [] nets = Inr ?records"
    using format_loop_all [of hw nets ?records "[]"] by simp
  with assms have "scan_wifi_networks hw = Inr (PList ?records)"
    by (simp add: scan_wifi_networks_body)
  moreover have "list_all2
      (\<lambda>net r. \<exists>s. (if net_ssid net = [] then s = '''' else decode_utf8 hw (net_ssid net) = Inr s)
                 \<and> r = net_record s net) nets ?records"
    unfolding list_all2_map2 list_all2_same using each by blast
  ultimately show ?thesis by blast
qed

theorem wifi_records_witness:
  "WLAN_new quiet_wifi = None \<and> wlan_active quiet_wifi = None
   \<and> wlan_scan quiet_wifi = Inr [home_net, hidden_net]
   \<and> decode_utf8 quiet_wifi (net_ssid home_net) = Inr ''home''
   \<and> net_ssid hidden_net = []
   \<and> scan_wifi_networks quiet_wifi
       = Inr (PList [net_record ''home'' home_net, net_record '''' hidden_net])
   \<and> net_record ''home'' home_net =
       PDict [(''ssid'', PStr ''home''), (''bssid'', PStr ''aa:bb:0c:01:02:ff''),
              (''channel'', PInt 6), (''rssi'', PInt (- 52)), (''security'', PStr ''Unknown'')]"
proof -
  have 1: "WLAN_new quiet_wifi = None" and 2: "wlan_active quiet_wifi = None"
    and 3: "wlan_scan quiet_wifi = Inr [home_net, hidden_net]"
    by (simp_all add: quiet_wifi_def)
  have d: "decode_utf8 quiet_wifi (net_ssid home_net) = Inr ''home''"
    by (simp add: quiet_wifi_def home_net_def sample_decode_def)
  have h: "net_ssid hidden_net = []" and nh: "net_ssid home_net \<noteq> []"
    by (simp_all add: hidden_net_def home_net_def)
  have 4: "\<forall>net\<in>set [home_net, hidden_net].
      net_ssid net \<noteq> [] \<longrightarrow> (\<exists>s. decode_utf8 quiet_wifi (net_ssid net) = Inr s)"
    using d h by simp
  from wifi_records [OF 1 2 3 4] d h nh
  have "scan_wifi_networks quiet_wifi
       = Inr (PList [net_record ''home'' home_net, net_record '''' hidden_net])"
    by (auto simp: list_all2_Cons1)
  with 1 2 3 d h home_record show ?thesis by simp
qed

text \<open>
  C3 as it is written promises a record for every network tuple the scan returns. It
  fails on a scan of three networks of which the second has an SSID that is not UTF-8:
  the first network's SSID decodes and its record can be formatted, yet the probe's
  result is the error record, which holds no record of any network.
\<close>

theorem wifi_records_counterexample:
  "WLAN_new noisy_wifi = None \<and> wlan_active noisy_wifi = None
   \<and> wlan_scan noisy_wifi = Inr [home_net, garbled_net, hidden_net]
   \<and> decode_utf8 noisy_wifi (net_ssid home_net) = Inr ''home''
   \<and> format_net noisy_wifi home_net = Inr (net_record ''home'' home_net)
   \<and> scan_wifi_networks noisy_wifi = Inr (PDict [(''error'', PStr ''UnicodeError'')])"
proof -
  have 1: "WLAN_new noisy_wifi = None" and 2: "wlan_active noisy_wifi = None"
    and 3: "wlan_scan noisy_wifi = Inr [home_net, garbled_net, hidden_net]"
    by (simp_all add: noisy_wifi_def quiet_wifi_def)
  have d: "decode_utf8 noisy_wifi (net_ssid home_net) = Inr ''home''"
    by (simp add: noisy_wifi_def quiet_wifi_def home_net_def sample_decode_def)
  have g: "format_net noisy_wifi garbled_net = Inl (Exception ''UnicodeError'')"
    by (simp add: noisy_wifi_def format_net_scan_irrelevant format_garbled)
  have h: "format_net noisy_wifi home_net = Inr (net_record ''home'' home_net)"
    by (simp add: noisy_wifi_def format_net_scan_irrelevant format_home)
  have "format_loop noisy_wifi [] [home_net, garbled_net, hidden_net]
      = Inl (Exception ''UnicodeError'')"
    by (simp add: g h)
  with 1 2 3 have "scan_wifi_networks noisy_wifi = Inr (PDict [(''error'', PStr ''UnicodeError'')])"
    by (simp add: scan_wifi_networks_body)
  with 1 2 3 d h show ?thesis by simp
qed

text \<open>
  C10. The Wi-Fi probe contains no fault per network. When formatting a scanned network
  raises, the probe returns an error record and none of the records formatted before;
  the message is that of the first network that fails.
\<close>

theorem wifi_all_or_nothing:
  assumes "WLAN_new hw = None" and "wlan_active hw = None"
    and "wlan_scan hw = Inr (before @ net # after)"
    and "format_net hw net = Inl e"
  shows "(\<exists>e'. scan_wifi_networks hw = Inr (PDict [(''error'', PStr (str_exn e'))]))
       \<and> ((\<forall>n\<in>set before. \<exists>r. format_net hw n = Inr r) \<longrightarrow>
            scan_wifi_networks hw = Inr (PDict [(''error'', PStr (str_exn e))]))"
proof (intro conjI impI)
  from assms(4) obtain e' where "format_loop hw [] (before @ net # after) = Inl e'"
    using format_loop_some_error by blast
  with assms(1-3) show "\<exists>e'. scan_wifi_networks hw = Inr (PDict [(''error'', PStr (str_exn e'))])"
    by (auto simp: scan_wifi_networks_body)
next
  assume "\<forall>n\<in>set before. \<exists>r. format_net hw n = Inr r"
  then have "format_loop hw [] (before @ net # after) = Inl e"
    using assms(4) by (rule format_loop_stops)
  with assms(1-3) show "scan_wifi_networks hw = Inr (PDict [(''error'', PStr (str_exn e))])"
    by (simp add: scan_wifi_networks_body)
qed

theorem wifi_all_or_nothing_witness:
  "WLAN_new noisy_wifi = None \<and> wlan_active noisy_wifi = None
   \<and> wlan_scan noisy_wifi = Inr ([home_net] @ garbled_net # [hidden_net])
   \<and> format_net noisy_wifi home_net = Inr (net_record ''home'' home_net)
   \<and> format_net noisy_wifi garbled_net = Inl (Exception ''UnicodeError'')
   \<and> scan_wifi_networks noisy_wifi = Inr (PDict [(''error'', PStr ''UnicodeError'')])"
proof -
  have 1: "WLAN_new noisy_wifi = None" and 2: "wlan_active noisy_wifi = None"
    and 3: "wlan_scan noisy_wifi = Inr ([home_net] @ garbled_net # [hidden_net])"
    by (simp_all add: noisy_wifi_def quiet_wifi_def)
  have 4: "format_net noisy_wifi garbled_net = Inl (Exception ''UnicodeError'')"
    by (simp add: noisy_wifi_def format_net_scan_irrelevant format_garbled)
  have 5: "format_net noisy_wifi home_net = Inr (net_record ''home'' home_net)"
    by (simp add: noisy_wifi_def format_net_scan_irrelevant format_home)
  from wifi_all_or_nothing [OF 1 2 3 4] 5
  have "scan_wifi_networks noisy_wifi = Inr (PDict [(''error'', PStr ''UnicodeError'')])"
    by simp
  with 1 2 3 4 5 show ?thesis by simp
qed

section \<open>Claims about the system probe\<close>

lemma get_system_metrics_collected:
  "collect_metrics hw = Inr metrics \<Longrightarrow> get_system_metrics hw = Inr (PDict (add_temp hw metrics))"
  by (simp add: get_system_metrics_def)

lemma collect_metrics_ok:
  "mem_free hw = Inr free \<Longrightarrow> mem_alloc hw = Inr allocated \<Longrightarrow> freq hw = Inr f \<Longrightarrow>
   time_time hw 0 = Inr t \<Longrightarrow>
   collect_metrics hw =
     Inr [(''memory'', PDict [(''free'', PInt free), (''allocated'', PInt allocated)]),
          (''freq'', PInt f), (''timestamp'', PInt t)]"
  by (simp add: collect_metrics_def)

lemma collect_metrics_raises:
  "(\<exists>e k. collect_metrics hw = Inl (e, k)) \<longleftrightarrow>
   isl (mem_free hw) \<or> isl (mem_alloc hw) \<or> isl (freq hw) \<or> isl (time_time hw 0)"
  by (auto simp: collect_metrics_def isl_def split: sum.splits)

text \<open>
  C9. When the four readings succeed and the platform has no temperature reading, or
  reading it raises, the result holds \<open>memory.free\<close>, \<open>memory.allocated\<close>, \<open>freq\<close> and
  \<open>timestamp\<close> and has no field \<open>temp\<close>; it is not an error record.
\<close>

theorem temperature_omitted:
  assumes "mem_free hw = Inr free" and "mem_alloc hw = Inr allocated" and "freq hw = Inr f"
    and "time_time hw 0 = Inr t"
    and "\<not> has_temperature hw \<or> (\<exists>e. temperature hw = Inl e)"
  shows "get_system_metrics hw =
     Inr (PDict [(''memory'', PDict [(''free'', PInt free), (''allocated'', PInt allocated)]),
                 (''freq'', PInt f), (''timestamp'', PInt t)])"
  using assms(5) collect_metrics_ok [OF assms(1-4)]
  by (auto simp: get_system_metrics_def add_temp_def)

theorem temperature_omitted_witness:
  "mem_free plain_sys = Inr 98304 \<and> mem_alloc plain_sys = Inr 12288
   \<and> freq plain_sys = Inr 160000000 \<and> time_time plain_sys 0 = Inr 700000000
   \<and> has_temperature plain_sys = False
   \<and> get_system_metrics plain_sys =
       Inr (PDict [(''memory'', PDict [(''free'', PInt 98304), (''allocated'', PInt 12288)]),
                   (''freq'', PInt 160000000), (''timestamp'', PInt 700000000)])
   \<and> has_temperature warm_sys = True
   \<and> temperature warm_sys = Inl (Exception ''no temperature'')
   \<and> get_system_metrics warm_sys =
       Inr (PDict [(''memory'', PDict [(''free'', PInt 98304), (''allocated'', PInt 12288)]),
                   (''freq'', PInt 160000000), (''timestamp'', PInt 700000000)])"
  using temperature_omitted [of plain_sys 98304 12288 160000000 700000000]
    temperature_omitted [of warm_sys 98304 12288 160000000 700000000]
  by (simp add: plain_sys_def warm_sys_def)

lemma metrics_handler_record:
  assumes "collect_metrics hw = Inl (e, k)" and "time_time hw k = Inr t"
  shows "get_system_metrics hw = Inr (PDict [(''error'', PStr (str_exn e)), (''timestamp'', PInt t)])"
  using assms by (simp add: get_system_metrics_def metrics_handler_def)

lemma metrics_handler_raises:
  assumes "collect_metrics hw = Inl (e, k)" and "time_time hw k = Inl e'"
  shows "get_system_metrics hw = Inl e'"
  using assms by (simp add: get_system_metrics_def metrics_handler_def)

text \<open>
  C8. When the collection of the metrics raises, the handler reads the clock. On the
  board without \<^verbatim>\<open>gc.mem_free()\<close> and on the board whose clock raises on the first call
  only, the reading succeeds and the result is the record with exactly the two fields
  \<open>error\<close> and \<open>timestamp\<close>. On the board whose \<^verbatim>\<open>time.time()\<close> raises on every call the
  collection raises as well, but the result is no record: the handler's reading raises
  and that exception is what the caller gets.
\<close>

theorem error_record_lost:
  "collect_metrics no_gc_sys = Inl (Exception ''no mem_free'', 0)
   \<and> get_system_metrics no_gc_sys
       = Inr (PDict [(''error'', PStr ''no mem_free''), (''timestamp'', PInt 700000000)])
   \<and> collect_metrics late_clock_sys = Inl (Exception ''clock not set'', 1)
   \<and> get_system_metrics late_clock_sys
       = Inr (PDict [(''error'', PStr ''clock not set''), (''timestamp'', PInt 700000001)])
   \<and> collect_metrics clockless_sys = Inl (Exception ''no clock'', 1)
   \<and> time_time clockless_sys 1 = Inl (Exception ''no clock'')
   \<and> get_system_metrics clockless_sys = Inl (Exception ''no clock'')"
proof -
  have a: "collect_metrics no_gc_sys = Inl (Exception ''no mem_free'', 0)"
    and at: "time_time no_gc_sys 0 = Inr 700000000"
    by (simp_all add: no_gc_sys_def plain_sys_def collect_metrics_def)
  have b: "collect_metrics late_clock_sys = Inl (Exception ''clock not set'', 1)"
    and bt: "time_time late_clock_sys 1 = Inr 700000001"
    by (simp_all add: late_clock_sys_def plain_sys_def collect_metrics_def)
  have c: "collect_metrics clockless_sys = Inl (Exception ''no clock'', 1)"
    and ct: "time_time clockless_sys 1 = Inl (Exception ''no clock'')"
    by (simp_all add: clockless_sys_def plain_sys_def collect_metrics_def)
  from metrics_handler_record [OF a at] metrics_handler_record [OF b bt]
    metrics_handler_raises [OF c ct] a b c ct
  show ?thesis by simp
qed

section \<open>Claims about all four probes\<close>

lemma get_gpio_states_returns: "\<exists>v. get_gpio_states hw = Inr v"
  by (simp add: get_gpio_states_def try_except_def split: option.splits)

lemma scan_i2c_devices_returns: "\<exists>v. scan_i2c_devices hw = Inr v"
  by (simp add: scan_i2c_devices_def try_except_def split: option.splits)

lemma scan_wifi_networks_returns: "\<exists>v. scan_wifi_networks hw = Inr v"
  by (simp add: scan_wifi_networks_def try_except_def split: option.splits sum.splits)

lemma get_system_metrics_raises_iff:
  "(\<exists>e'. get_system_metrics hw = Inl e') \<longleftrightarrow>
   (\<exists>e k e'. collect_metrics hw = Inl (e, k) \<and> time_time hw k = Inl e')"
  by (auto simp: get_system_metrics_def metrics_handler_def split: sum.splits)

lemma print_marker_line:
  "result = Inr v \<Longrightarrow>
   print_marker tag result = Inr (tag @ json_dumps v @ [newline])"
  by (simp add: print_marker_def)

lemma send_metrics_line:
  "get_system_metrics hw = Inr v \<Longrightarrow>
   send_metrics hw = Inr (''__MONITOR_DATA__'' @ json_dumps v @ [newline])
   \<and> newline \<notin> set (''__MONITOR_DATA__'' @ json_dumps v)"
  using newline_notin_json_dumps [of v]
  by (simp add: send_metrics_def print_marker_def newline_def)

text \<open>
  C6. The GPIO, I2C and Wi-Fi probes return a value whatever the hardware does. The
  system probe does not: on a board whose \<^verbatim>\<open>time.time()\<close> raises on every call the
  collection fails at the clock, the handler calls the clock again, and that exception
  leaves \<^verbatim>\<open>get_system_metrics\<close>.
\<close>

theorem system_probe_raises:
  "(\<exists>v. get_gpio_states ghw = Inr v) \<and> (\<exists>v. scan_i2c_devices ihw = Inr v)
   \<and> (\<exists>v. scan_wifi_networks whw = Inr v)
   \<and> collect_metrics clockless_sys = Inl (Exception ''no clock'', 1)
   \<and> get_system_metrics clockless_sys = Inl (Exception ''no clock'')"
  using get_gpio_states_returns [of ghw] scan_i2c_devices_returns [of ihw]
    scan_wifi_networks_returns [of whw]
  by (simp add: get_system_metrics_def metrics_handler_def collect_metrics_def
      clockless_sys_def plain_sys_def)

text \<open>
  C1. The GPIO, I2C and Wi-Fi senders write exactly one line: the tag, then the JSON text
  of the probe's result, which has no line break, then the newline of \<^verbatim>\<open>print\<close>. The
  system sender writes nothing on the board whose \<^verbatim>\<open>time.time()\<close> raises on every call:
  the exception leaves \<^verbatim>\<open>get_system_metrics\<close> before \<^verbatim>\<open>print\<close> is reached.
\<close>

theorem system_marker_missing:
  "(\<exists>v. send_gpio_states ghw = Inr (''__GPIO_STATE__'' @ json_dumps v @ [newline])
        \<and> get_gpio_states ghw = Inr v
        \<and> newline \<notin> set (''__GPIO_STATE__'' @ json_dumps v))
   \<and> (\<exists>v. send_i2c_scan ihw = Inr (''__I2C_DEVICES__'' @ json_dumps v @ [newline])
        \<and> scan_i2c_devices ihw = Inr v
        \<and> newline \<notin> set (''__I2C_DEVICES__'' @ json_dumps v))
   \<and> (\<exists>v. send_wifi_scan whw = Inr (''__WIFI_SCAN__'' @ json_dumps v @ [newline])
        \<and> scan_wifi_networks whw = Inr v
        \<and> newline \<notin> set (''__WIFI_SCAN__'' @ json_dumps v))
   \<and> send_metrics clockless_sys = Inl (Exception ''no clock'')"
proof (intro conjI)
  from get_gpio_states_returns [of ghw] obtain v where "get_gpio_states ghw = Inr v" ..
  then show "\<exists>v. send_gpio_states ghw = Inr (''__GPIO_STATE__'' @ json_dumps v @ [newline])
        \<and> get_gpio_states ghw = Inr v
        \<and> newline \<notin> set (''__GPIO_STATE__'' @ json_dumps v)"
    using newline_notin_json_dumps [of v]
    by (simp add: send_gpio_states_def print_marker_def newline_def)
next
  from scan_i2c_devices_returns [of ihw] obtain v where "scan_i2c_devices ihw = Inr v" ..
  then show "\<exists>v. send_i2c_scan ihw = Inr (''__I2C_DEVICES__'' @ json_dumps v @ [newline])
        \<and> scan_i2c_devices ihw = Inr v
        \<and> newline \<notin> set (''__I2C_DEVICES__'' @ json_dumps v)"
    using newline_notin_json_dumps [of v]
    by (simp add: send_i2c_scan_def print_marker_def newline_def)
next
  from scan_wifi_networks_returns [of whw] obtain v where "scan_wifi_networks whw = Inr v" ..
  then show "\<exists>v. send_wifi_scan whw = Inr (''__WIFI_SCAN__'' @ json_dumps v @ [newline])
        \<and> scan_wifi_networks whw = Inr v
        \<and> newline \<notin> set (''__WIFI_SCAN__'' @ json_dumps v)"
    using newline_notin_json_dumps [of v]
    by (simp add: send_wifi_scan_def print_marker_def newline_def)
next
  show "send_metrics clockless_sys = Inl (Exception ''no clock'')"
    by (simp add: send_metrics_def print_marker_def get_system_metrics_def metrics_handler_def
        collect_metrics_def clockless_sys_def plain_sys_def)
qed

end
